theory Spec2Isabelle
  imports Main "HOL-Library.Word"
begin

section \<open>Strings\<close>

text \<open>
  A TypeScript string is a sequence of UTF-16 code units, and \<open>length\<close> counts code
  units. A code unit is a 16-bit word. \<open>js\<close> writes a literal of the source.
\<close>

type_synonym jschar = "16 word"
type_synonym jsstring = "jschar list"

definition ch :: "char \<Rightarrow> jschar" where
  "ch c = of_char c"

definition js :: "string \<Rightarrow> jsstring" where
  "js s = map ch s"

text \<open>\<open>xs.join(sep)\<close> on an array of strings.\<close>

fun join :: "jsstring \<Rightarrow> jsstring list \<Rightarrow> jsstring" where
  "join sep [] = []"
| "join sep [x] = x"
| "join sep (x # y # ys) = x @ sep @ join sep (y # ys)"

text \<open>\<open>s.split('.')[0]\<close>: the part of \<open>s\<close> before its first full stop, all of
  \<open>s\<close> when it has none.\<close>

definition split_dot_first :: "jsstring \<Rightarrow> jsstring" where
  "split_dot_first s = takeWhile (\<lambda>c. c \<noteq> ch CHR ''.'') s"

text \<open>\<open>s.toUpperCase()\<close> on the code units \<open>a\<close> to \<open>z\<close>; every other code unit is
  kept. The only receiver in the program is the level of a constructed message, one of six
  words of lower-case ASCII letters.\<close>

definition upper_cu :: "jschar \<Rightarrow> jschar" where
  "upper_cu c = (if ch CHR ''a'' \<le> c \<and> c \<le> ch CHR ''z'' then c - 32 else c)"

definition toUpperCase :: "jsstring \<Rightarrow> jsstring" where
  "toUpperCase s = map upper_cu s"

section \<open>Regular expressions\<close>

text \<open>
  The three patterns of the source are anchored at both ends (\<open>^ ... $\<close>, no flag), so
  \<open>re.test(s)\<close> asks whether all of \<open>s\<close> is in the language of the pattern. Patterns
  are terms of \<open>regex\<close>; \<open>matches\<close> decides membership by derivatives, and \<open>accepts\<close> is
  the usual inductive reading of a pattern, against which \<open>matches\<close> is proved right.
\<close>

datatype regex =
    Never
  | Empty
  | Sym "jschar \<Rightarrow> bool"
  | Seq regex regex
  | Alt regex regex
  | Star regex

fun nullable :: "regex \<Rightarrow> bool" where
  "nullable Never = False"
| "nullable Empty = True"
| "nullable (Sym p) = False"
| "nullable (Seq r s) = (nullable r \<and> nullable s)"
| "nullable (Alt r s) = (nullable r \<or> nullable s)"
| "nullable (Star r) = True"

fun deriv :: "jschar \<Rightarrow> regex \<Rightarrow> regex" where
  "deriv c Never = Never"
| "deriv c Empty = Never"
| "deriv c (Sym p) = (if p c then Empty else Never)"
| "deriv c (Seq r s) =
     (if nullable r then Alt (Seq (deriv c r) s) (deriv c s) else Seq (deriv c r) s)"
| "deriv c (Alt r s) = Alt (deriv c r) (deriv c s)"
| "deriv c (Star r) = Seq (deriv c r) (Star r)"

fun matches :: "regex \<Rightarrow> jsstring \<Rightarrow> bool" where
  "matches r [] = nullable r"
| "matches r (c # cs) = matches (deriv c r) cs"

inductive accepts :: "regex \<Rightarrow> jsstring \<Rightarrow> bool" where
  acc_Empty: "accepts Empty []"
| acc_Sym: "p c \<Longrightarrow> accepts (Sym p) [c]"
| acc_Seq: "accepts r u \<Longrightarrow> accepts s v \<Longrightarrow> accepts (Seq r s) (u @ v)"
| acc_AltL: "accepts r u \<Longrightarrow> accepts (Alt r s) u"
| acc_AltR: "accepts s u \<Longrightarrow> accepts (Alt r s) u"
| acc_StarNil: "accepts (Star r) []"
| acc_StarStep: "accepts r u \<Longrightarrow> accepts (Star r) v \<Longrightarrow> accepts (Star r) (u @ v)"

text \<open>The pieces the source's patterns are written with.\<close>

definition lit :: "char \<Rightarrow> regex" where
  "lit c = Sym (\<lambda>x. x = ch c)"

definition opt :: "regex \<Rightarrow> regex" where
  "opt r = Alt r Empty"

definition plus :: "regex \<Rightarrow> regex" where
  "plus r = Seq r (Star r)"

fun seqs :: "regex list \<Rightarrow> regex" where
  "seqs [] = Empty"
| "seqs (r # rs) = Seq r (seqs rs)"

text \<open>\<open>\d\<close> is \<open>[0-9]\<close>.\<close>

definition is_digit :: "jschar \<Rightarrow> bool" where
  "is_digit c = (ch CHR ''0'' \<le> c \<and> c \<le> ch CHR ''9'')"

text \<open>\<open>.\<close> without the \<open>s\<close> flag is any code unit but the four line terminators
  U+000A, U+000D, U+2028 and U+2029.\<close>

definition is_dot :: "jschar \<Rightarrow> bool" where
  "is_dot c = (c \<noteq> 0x0A \<and> c \<noteq> 0x0D \<and> c \<noteq> 0x2028 \<and> c \<noteq> 0x2029)"

text \<open>\<open>[a-zA-Z0-9_@.-]\<close>\<close>

definition is_username_char :: "jschar \<Rightarrow> bool" where
  "is_username_char c =
     ((ch CHR ''a'' \<le> c \<and> c \<le> ch CHR ''z'') \<or> (ch CHR ''A'' \<le> c \<and> c \<le> ch CHR ''Z'')
      \<or> (ch CHR ''0'' \<le> c \<and> c \<le> ch CHR ''9'')
      \<or> c = ch CHR ''_'' \<or> c = ch CHR ''@'' \<or> c = ch CHR ''.'' \<or> c = ch CHR ''-'')"

definition digit :: regex where
  "digit = Sym is_digit"

text \<open>\<open>/^[a-zA-Z0-9_@.-]+$/\<close>\<close>

definition username_re :: regex where
  "username_re = plus (Sym is_username_char)"

text \<open>\<open>/^\d\d\d\d-\d\d-\d\dT\d\d:\d\d(:\d\d(.\d\d\d(\d\d\d)?)?)?$/\<close>\<close>

definition timestamp_re :: regex where
  "timestamp_re =
     seqs [digit, digit, digit, digit, lit CHR ''-'', digit, digit, lit CHR ''-'', digit, digit, lit CHR ''T'',
           digit, digit, lit CHR '':'', digit, digit,
           opt (seqs [lit CHR '':'', digit, digit,
                      opt (seqs [Sym is_dot, digit, digit, digit,
                                 opt (seqs [digit, digit, digit])])])]"

text \<open>\<open>/^\d+-\d\d:\d\d:\d\d$/\<close>\<close>

definition expires_re :: regex where
  "expires_re =
     seqs [plus digit, lit CHR ''-'', digit, digit, lit CHR '':'', digit, digit, lit CHR '':'', digit, digit]"

section \<open>The sanitizers\<close>

text \<open>
  \<open>escapeHtml\<close> of the hardened revision puts the string into a text node under a fresh
  \<open>div\<close> and returns \<open>div.innerHTML\<close>. The browser serialises a text node by replacing
  \<open>&\<close>, the no-break space U+00A0, \<open><\<close> and \<open>>\<close> with their entities and keeping
  every other code unit.
\<close>

definition escape_cu :: "jschar \<Rightarrow> jsstring" where
  "escape_cu c =
     (if c = ch CHR ''&'' then js ''&amp;''
      else if c = 0xA0 then js ''&nbsp;''
      else if c = ch CHR ''<'' then js ''&lt;''
      else if c = ch CHR ''>'' then js ''&gt;''
      else [c])"

definition escapeHtml :: "jsstring \<Rightarrow> jsstring" where
  "escapeHtml html = concat (map escape_cu html)"

text \<open>
  \<open>escapeHtml\<close> of the simpler revision (\<open>src/index.ts\<close>) builds the same \<open>div\<close> and
  returns \<open>div.innerText\<close>. The \<open>div\<close> is never attached to the document, so it is not
  rendered, and \<open>innerText\<close> of an element that is not rendered is its \<open>textContent\<close>:
  the data of the text node, as it was given.
\<close>

definition escapeHtml_innerText :: "jsstring \<Rightarrow> jsstring" where
  "escapeHtml_innerText html = html"

section \<open>Values of the payload\<close>

text \<open>
  What \<open>response.json()\<close> can give, and \<open>undefined\<close>, which reading a missing
  property gives. An object is the list of its own properties, the first entry of a name
  being the property of that name. The program tests the type
  of a number and turns it into text, nothing else, so a number is carried as the text
  \<open>String(x)\<close> gives for it.
\<close>

datatype jsval =
    JUndefined
  | JNull
  | JBool bool
  | JNum jsstring
  | JStr jsstring
  | JArr "jsval list"
  | JObj "(jsstring \<times> jsval) list"

text \<open>\<open>ValidationError\<close> is the class of the source; \<open>TypeError\<close> is what the
  language raises by itself.\<close>

datatype error = ValidationError string | TypeError

text \<open>
  \<open>v.name\<close> for the names the program reads (\<open>blocks\<close>, \<open>messages\<close>, \<open>title\<close>,
  \<open>popup\<close>, \<open>timestamp\<close>, \<open>username\<close>, \<open>expires\<close>, \<open>level\<close>, \<open>message\<close>): none
  of them is a property of a prototype, so the read gives the object's own property or
  \<open>undefined\<close>. Reading a property of \<open>null\<close> or \<open>undefined\<close> raises a TypeError.
\<close>

fun getProp :: "jsval \<Rightarrow> string \<Rightarrow> error + jsval" where
  "getProp JUndefined name = Inl TypeError"
| "getProp JNull name = Inl TypeError"
| "getProp (JObj props) name =
     Inr (case map_of props (js name) of Some v \<Rightarrow> v | None \<Rightarrow> JUndefined)"
| "getProp v name = Inr JUndefined"

text \<open>
  The conversion to a string that \<open>document.createTextNode\<close> applies to its argument.
  An array joins the texts of its items with commas, \<open>null\<close> and \<open>undefined\<close> items
  counting as empty; an object gives \<open>[object Object]\<close> unless it has a \<open>toString\<close>
  property of its own, which in a payload is never a function: then the conversion raises
  a TypeError.
\<close>

fun toDOMString :: "jsval \<Rightarrow> error + jsstring"
  and items_toString :: "jsval list \<Rightarrow> error + jsstring list" where
  "toDOMString JUndefined = Inr (js ''undefined'')"
| "toDOMString JNull = Inr (js ''null'')"
| "toDOMString (JBool b) = Inr (if b then js ''true'' else js ''false'')"
| "toDOMString (JNum t) = Inr t"
| "toDOMString (JStr s) = Inr s"
| "toDOMString (JArr xs) =
     (case items_toString xs of Inl e \<Rightarrow> Inl e | Inr ss \<Rightarrow> Inr (join (js '','') ss))"
| "toDOMString (JObj props) =
     (if js ''toString'' \<in> fst ` set props then Inl TypeError
      else Inr (js ''[object Object]''))"
| "items_toString [] = Inr []"
| "items_toString (x # xs) =
     (case (if x = JNull \<or> x = JUndefined then Inr [] else toDOMString x) of
        Inl e \<Rightarrow> Inl e
      | Inr s \<Rightarrow> (case items_toString xs of Inl e \<Rightarrow> Inl e | Inr ss \<Rightarrow> Inr (s # ss)))"

text \<open>\<open>xs.map(f)\<close> with a callback that may throw: the first throw ends the map.\<close>

fun map_throwing :: "('a \<Rightarrow> error + 'b) \<Rightarrow> 'a list \<Rightarrow> error + 'b list" where
  "map_throwing f [] = Inr []"
| "map_throwing f (x # xs) =
     (case f x of
        Inl e \<Rightarrow> Inl e
      | Inr y \<Rightarrow> (case map_throwing f xs of Inl e \<Rightarrow> Inl e | Inr ys \<Rightarrow> Inr (y # ys)))"

section \<open>Message\<close>

record Message =
  username :: jsstring
  timestamp :: jsstring
  expires :: jsstring
  level :: jsstring
  message :: jsstring

text \<open>The five checks of the constructor, in its order. The arguments come from a
  payload, so each is any value.\<close>

definition username_ok :: "jsval \<Rightarrow> bool" where
  "username_ok v =
     (case v of
        JStr s \<Rightarrow> length s > 0 \<and> length s \<le> 32 \<and> matches username_re s
      | _ \<Rightarrow> False)"

definition timestamp_ok :: "jsval \<Rightarrow> bool" where
  "timestamp_ok v = (case v of JStr s \<Rightarrow> matches timestamp_re s | _ \<Rightarrow> False)"

definition expires_ok :: "jsval \<Rightarrow> bool" where
  "expires_ok v = (case v of JStr s \<Rightarrow> matches expires_re s | _ \<Rightarrow> False)"

definition levels :: "jsval list" where
  "levels = map (\<lambda>w. JStr (js w))
     [''debug'', ''info'', ''notice'', ''warning'', ''error'', ''critical'']"

definition level_ok :: "jsval \<Rightarrow> bool" where
  "level_ok v = (v \<in> set levels)"

definition message_ok :: "jsval \<Rightarrow> bool" where
  "message_ok v = (case v of JStr s \<Rightarrow> length s > 0 \<and> length s \<le> 1024 | _ \<Rightarrow> False)"

text \<open>The string of a value that a check has found to be a string.\<close>

fun str_of :: "jsval \<Rightarrow> jsstring" where
  "str_of (JStr s) = s"
| "str_of v = []"

text \<open>\<open>new Message(username, timestamp, expires, level, message)\<close>. \<open>sanitizeHtml\<close>
  is DOMPurify's \<open>sanitize\<close> under the configuration of the source, a function from
  strings to strings of a library outside the repository: it is a parameter.\<close>

definition Message_new ::
  "(jsstring \<Rightarrow> jsstring) \<Rightarrow> jsval \<Rightarrow> jsval \<Rightarrow> jsval \<Rightarrow> jsval \<Rightarrow> jsval \<Rightarrow> error + Message" where
  "Message_new sanitizeHtml u t e l m =
     (if \<not> username_ok u then Inl (ValidationError ''Bad message username.'')
      else if \<not> timestamp_ok t then Inl (ValidationError ''Bad message timestamp.'')
      else if \<not> expires_ok e then Inl (ValidationError ''Bad expires time.'')
      else if \<not> level_ok l then Inl (ValidationError ''Bad level setting.'')
      else if \<not> message_ok m then Inl (ValidationError ''Bad message content.'')
      else Inr \<lparr> username = escapeHtml (str_of u),
                 timestamp = escapeHtml (str_of t),
                 expires = escapeHtml (str_of e),
                 level = escapeHtml (str_of l),
                 message = sanitizeHtml (str_of m) \<rparr>)"

definition fmtTimestamp :: "Message \<Rightarrow> jsstring" where
  "fmtTimestamp msg =
     js ''<td class='announce-timestamp'>['' @ split_dot_first (timestamp msg) @ js '']</td>''"

definition fmtLevel :: "Message \<Rightarrow> jsstring" where
  "fmtLevel msg =
     js ''<td class='announce-'' @ level msg @ js '''>'' @ toUpperCase (level msg) @ js ''</td>''"

definition fmtMessage :: "Message \<Rightarrow> jsstring" where
  "fmtMessage msg = js ''<td class='announce-text'>'' @ message msg @ js ''</td>''"

definition Message_toHtml :: "Message \<Rightarrow> jsstring" where
  "Message_toHtml msg =
     js ''<tr>'' @ fmtTimestamp msg @ js '' '' @ fmtLevel msg @ js '' <td> &nbsp; </td> ''
       @ fmtMessage msg @ js ''</tr>''"

section \<open>MessageBlock\<close>

record MessageBlock =
  title :: jsstring
  messages :: "Message list"

text \<open>\<open>new MessageBlock(title, messages)\<close>. The only caller passes the array that
  \<open>map\<close> built from \<open>new Message(...)\<close>, so \<open>messages\<close> is a list of messages and
  the checks \<open>Array.isArray\<close> and \<open>instanceof Message\<close> hold by its type.\<close>

definition MessageBlock_new ::
  "(jsstring \<Rightarrow> jsstring) \<Rightarrow> jsval \<Rightarrow> Message list \<Rightarrow> error + MessageBlock" where
  "MessageBlock_new sanitizeHtml t msgs =
     (if (case t of JStr s \<Rightarrow> length s \<le> 0 \<or> length s > 128 | _ \<Rightarrow> True)
      then Inl (ValidationError ''Bad title.'')
      else if length msgs \<le> 0 \<or> length msgs > 16
      then Inl (ValidationError ''Bad messages array.'')
      else Inr \<lparr> title = sanitizeHtml (str_of t), messages = msgs \<rparr>)"

text \<open>The three pieces of the template literal of \<open>toHtml\<close>, around the title and
  around the rows.\<close>

definition block_open :: jsstring where
  "block_open = js ''<table class=\"announcement-block\">\<newline>                        <theader>\<newline>                            <p class='announce-block-title'>''"

definition block_middle :: jsstring where
  "block_middle = js ''</p>\<newline>                        </theader>\<newline>                        <tbody>\<newline>                            ''"

definition block_close :: jsstring where
  "block_close = js ''\<newline>                        </tbody>\<newline>                    </table>''"

definition MessageBlock_toHtml :: "MessageBlock \<Rightarrow> jsstring" where
  "MessageBlock_toHtml b =
     (if length (messages b) = 0 then []
      else block_open @ title b @ block_middle
        @ join (js ''\<newline>'') (map Message_toHtml (messages b))
        @ block_close)"

section \<open>AnnouncementsData\<close>

record AnnouncementsData =
  popup :: bool
  ad_timestamp :: jsstring
  blocks :: "MessageBlock list"

text \<open>\<open>new AnnouncementsData(popup, timestamp, blocks)\<close>. As for a block, \<open>blocks\<close>
  is the array \<open>map\<close> built. \<open>timestamp\<close> is not checked: \<open>escapeHtml\<close> hands it to
  \<open>createTextNode\<close>, which converts it to a string first.\<close>

definition AnnouncementsData_new ::
  "jsval \<Rightarrow> jsval \<Rightarrow> MessageBlock list \<Rightarrow> error + AnnouncementsData" where
  "AnnouncementsData_new p t bs =
     (case p of
        JBool b \<Rightarrow>
          (case toDOMString t of
             Inl e \<Rightarrow> Inl e
           | Inr s \<Rightarrow> Inr \<lparr> popup = b, ad_timestamp = escapeHtml s, blocks = bs \<rparr>)
      | _ \<Rightarrow> Inl (ValidationError ''Bad popup type.''))"

definition announcement_open :: jsstring where
  "announcement_open = js ''<div class=\"announcement\">\<newline>                ''"

definition announcement_close :: jsstring where
  "announcement_close = js ''\<newline>                        <p/>\<newline>            </div>''"

definition AnnouncementsData_toHtml :: "AnnouncementsData \<Rightarrow> jsstring" where
  "AnnouncementsData_toHtml a =
     (if length (blocks a) = 0 then []
      else announcement_open
        @ join (js ''\<newline>'') (map MessageBlock_toHtml (blocks a))
        @ announcement_close)"

section \<open>jsonToAnnouncementsData\<close>

text \<open>The callback of the inner \<open>map\<close>: the five property reads, then the constructor.\<close>

definition message_of :: "(jsstring \<Rightarrow> jsstring) \<Rightarrow> jsval \<Rightarrow> error + Message" where
  "message_of sanitizeHtml msg =
     (case getProp msg ''username'' of
        Inl e \<Rightarrow> Inl e
      | Inr u \<Rightarrow>
          (case getProp msg ''timestamp'' of
             Inl e \<Rightarrow> Inl e
           | Inr t \<Rightarrow>
               (case getProp msg ''expires'' of
                  Inl e \<Rightarrow> Inl e
                | Inr e \<Rightarrow>
                    (case getProp msg ''level'' of
                       Inl e \<Rightarrow> Inl e
                     | Inr l \<Rightarrow>
                         (case getProp msg ''message'' of
                            Inl e \<Rightarrow> Inl e
                          | Inr m \<Rightarrow> Message_new sanitizeHtml u t e l m)))))"

text \<open>The callback of the outer \<open>map\<close>.\<close>

definition block_of :: "(jsstring \<Rightarrow> jsstring) \<Rightarrow> jsval \<Rightarrow> error + MessageBlock" where
  "block_of sanitizeHtml blockData =
     (case getProp blockData ''messages'' of
        Inl e \<Rightarrow> Inl e
      | Inr bdmessages \<Rightarrow>
          (case bdmessages of
             JArr ms \<Rightarrow>
               (if length ms \<le> 0 \<or> length ms > 16
                then Inl (ValidationError ''Bad messages array.'')
                else (case map_throwing (message_of sanitizeHtml) ms of
                        Inl e \<Rightarrow> Inl e
                      | Inr msgs \<Rightarrow>
                          (case getProp blockData ''title'' of
                             Inl e \<Rightarrow> Inl e
                           | Inr t \<Rightarrow> MessageBlock_new sanitizeHtml t msgs)))
           | _ \<Rightarrow> Inl (ValidationError ''Bad messages array.'')))"

definition jsonToAnnouncementsData ::
  "(jsstring \<Rightarrow> jsstring) \<Rightarrow> jsval \<Rightarrow> error + AnnouncementsData" where
  "jsonToAnnouncementsData sanitizeHtml jsonData =
     (case getProp jsonData ''blocks'' of
        Inl e \<Rightarrow> Inl e
      | Inr bv \<Rightarrow>
          (case bv of
             JArr bds \<Rightarrow>
               (case map_throwing (block_of sanitizeHtml) bds of
                  Inl e \<Rightarrow> Inl e
                | Inr bs \<Rightarrow>
                    (case getProp jsonData ''popup'' of
                       Inl e \<Rightarrow> Inl e
                     | Inr p \<Rightarrow>
                         (case getProp jsonData ''timestamp'' of
                            Inl e \<Rightarrow> Inl e
                          | Inr t \<Rightarrow> AnnouncementsData_new p t bs)))
           | _ \<Rightarrow> Inl (ValidationError ''Bad blocks array.'')))"

section \<open>RefreshAnnouncements\<close>

text \<open>
  The status-bar button is a DOM node of the host. The program writes three of its
  properties, each time one of a few fixed texts; every text of the source is a
  constructor here. The tooltip of the degraded state shows the retry delay.
\<close>

datatype button_text =
  TextEmpty | TextAnnouncements | TextClickForAnnouncements | TextRetrying
  | TextUnavailable | TextRestored

datatype button_color = ColorDefault | ColorOrange | ColorRed | ColorGreen

datatype button_title =
  TitleEmpty | TitleClickToView | TitleRetryingIn int | TitleUnavailable | TitleRestored

record button =
  textContent :: button_text
  color :: button_color
  node_title :: button_title

datatype service_state = normal | degraded | failed

record RefreshAnnouncements =
  openAnnouncementButton :: "button option"
  last_rendered :: jsstring
  newAnnouncement :: bool
  retryDelay :: int
  maxRetryDelay :: int
  initialRetryDelay :: int
  serviceState :: service_state

text \<open>The constructor.\<close>

definition RefreshAnnouncements_new :: RefreshAnnouncements where
  "RefreshAnnouncements_new =
     \<lparr> openAnnouncementButton = None,
       last_rendered = [],
       newAnnouncement = False,
       retryDelay = 10000,
       maxRetryDelay = 600000,
       initialRetryDelay = 10000,
       serviceState = normal \<rparr>"

definition isPermissionError :: "int \<Rightarrow> bool" where
  "isPermissionError status = (status = 401 \<or> status = 403 \<or> status = 407)"

definition shouldRetry :: "int \<Rightarrow> bool" where
  "shouldRetry status = (isPermissionError status \<or> (status \<ge> 500 \<and> status < 600))"

definition updateButtonForServiceState :: "RefreshAnnouncements \<Rightarrow> RefreshAnnouncements" where
  "updateButtonForServiceState self =
     (case openAnnouncementButton self of
        None \<Rightarrow> self
      | Some b \<Rightarrow>
          self\<lparr>openAnnouncementButton := Some
            (case serviceState self of
               normal \<Rightarrow>
                 b\<lparr>textContent :=
                      (if \<not> newAnnouncement self then TextAnnouncements
                       else TextClickForAnnouncements),
                   color := ColorDefault\<rparr>
             | degraded \<Rightarrow> b\<lparr>textContent := TextRetrying, color := ColorOrange\<rparr>
             | failed \<Rightarrow> b\<lparr>textContent := TextUnavailable, color := ColorRed\<rparr>)\<rparr>)"

definition updateButtonTooltip :: "RefreshAnnouncements \<Rightarrow> RefreshAnnouncements" where
  "updateButtonTooltip self =
     (case openAnnouncementButton self of
        None \<Rightarrow> self
      | Some b \<Rightarrow>
          self\<lparr>openAnnouncementButton := Some
            (case serviceState self of
               normal \<Rightarrow> b\<lparr>node_title := TitleClickToView\<rparr>
             | degraded \<Rightarrow> b\<lparr>node_title := TitleRetryingIn (retryDelay self)\<rparr>
             | failed \<Rightarrow> b\<lparr>node_title := TitleUnavailable\<rparr>)\<rparr>)"

text \<open>\<open>showRecoveryNotification\<close>: the new state, and whether the timer of three seconds
  that puts the label back was set. \<open>recoveryTimeout\<close> is what that timer runs.\<close>

definition showRecoveryNotification :: "RefreshAnnouncements \<Rightarrow> RefreshAnnouncements \<times> bool" where
  "showRecoveryNotification self =
     (case openAnnouncementButton self of
        None \<Rightarrow> (self, False)
      | Some b \<Rightarrow>
          (self\<lparr>openAnnouncementButton := Some
             (b\<lparr>textContent := TextRestored, color := ColorGreen,
                node_title := TitleRestored\<rparr>)\<rparr>, True))"

definition recoveryTimeout :: "RefreshAnnouncements \<Rightarrow> RefreshAnnouncements" where
  "recoveryTimeout self = updateButtonTooltip (updateButtonForServiceState self)"

text \<open>\<open>createAnnouncementsButton(newAnnouncement)\<close>: the button is made when there is
  none, then labelled.\<close>

definition createAnnouncementsButton :: "RefreshAnnouncements \<Rightarrow> bool \<Rightarrow> RefreshAnnouncements" where
  "createAnnouncementsButton self newAnn =
     (let b = (case openAnnouncementButton self of
                 None \<Rightarrow> \<lparr> textContent = TextEmpty, color = ColorDefault,
                           node_title = TitleEmpty \<rparr>
               | Some b \<Rightarrow> b)
      in self\<lparr>openAnnouncementButton := Some
           (b\<lparr>textContent :=
                (if \<not> newAnn then TextAnnouncements else TextClickForAnnouncements)\<rparr>)\<rparr>)"

text \<open>\<open>openAnnouncements\<close> has no \<open>await\<close>: its body runs at the call. It marks the
  announcement as seen and shows the dialog; the caller records the dialog.\<close>

definition openAnnouncements :: "RefreshAnnouncements \<Rightarrow> RefreshAnnouncements" where
  "openAnnouncements self = self\<lparr>newAnnouncement := False\<rparr>"

text \<open>A click on the button.\<close>

definition onclick :: "RefreshAnnouncements \<Rightarrow> RefreshAnnouncements" where
  "onclick self =
     (let s1 = self\<lparr>newAnnouncement := False\<rparr>;
          s2 = openAnnouncements s1
      in createAnnouncementsButton s2 (newAnnouncement s2))"

text \<open>
  What the two awaits of a cycle can give: \<open>fetch\<close> rejects, or it gives a response with
  its \<open>ok\<close> and \<open>status\<close>, whose \<open>json()\<close> gives a value or rejects (\<open>None\<close>).
\<close>

datatype fetched = Rejected | Response bool int "jsval option"

text \<open>
  What one call of \<open>updateAnnouncements(url, n)\<close> leaves: the state, the delay of the one
  timer it sets for the next call, whether it opened the dialog, and whether it set the
  timer of the recovery notice.
\<close>

record cycle =
  after :: RefreshAnnouncements
  next_poll :: int
  modal_opened :: bool
  recovery_timer :: bool

text \<open>The \<open>catch\<close> block for an error that is not a \<open>ValidationError\<close>.\<close>

definition fetch_error :: "RefreshAnnouncements \<Rightarrow> int \<Rightarrow> cycle" where
  "fetch_error self n =
     (if retryDelay self \<ge> maxRetryDelay self then
        (let s1 = self\<lparr>serviceState := failed\<rparr>;
             s2 = (if openAnnouncementButton s1 = None
                   then createAnnouncementsButton s1 False else s1);
             s3 = updateButtonTooltip (updateButtonForServiceState s2);
             s4 = s3\<lparr>retryDelay := initialRetryDelay s3\<rparr>
         in \<lparr> after = s4, next_poll = n, modal_opened = False, recovery_timer = False \<rparr>)
      else
        (let s1 = self\<lparr>serviceState := degraded\<rparr>;
             s2 = (if openAnnouncementButton s1 = None
                   then createAnnouncementsButton s1 False else s1);
             s3 = updateButtonTooltip (updateButtonForServiceState s2);
             s4 = s3\<lparr>retryDelay := min (retryDelay s3 * 2) (maxRetryDelay s3)\<rparr>
         in \<lparr> after = s4, next_poll = retryDelay s3, modal_opened = False,
              recovery_timer = False \<rparr>))"

text \<open>The branch of a response that is not ok and not to be retried.\<close>

definition non_retryable :: "RefreshAnnouncements \<Rightarrow> int \<Rightarrow> cycle" where
  "non_retryable self n =
     (let s1 = self\<lparr>retryDelay := initialRetryDelay self\<rparr>;
          wasServiceDegraded = (serviceState s1 \<noteq> normal);
          s2 = s1\<lparr>serviceState := normal\<rparr>;
          (s3, timer) = (if wasServiceDegraded then showRecoveryNotification s2
                         else (s2, False));
          s4 = (case openAnnouncementButton s3 of
                  None \<Rightarrow> s3
                | Some b \<Rightarrow> s3\<lparr>openAnnouncementButton := Some (b\<lparr>textContent := TextEmpty\<rparr>)\<rparr>)
      in \<lparr> after = s4, next_poll = n, modal_opened = False, recovery_timer = timer \<rparr>)"

text \<open>The rest of the \<open>try\<close> block once the payload is validated.\<close>

definition success :: "RefreshAnnouncements \<Rightarrow> int \<Rightarrow> AnnouncementsData \<Rightarrow> cycle" where
  "success self n announcements =
     (let rendered = AnnouncementsData_toHtml announcements;
          wasServiceDegraded = (serviceState self \<noteq> normal);
          s1 = self\<lparr>serviceState := normal, retryDelay := initialRetryDelay self\<rparr>;
          s2 = (if rendered \<noteq> last_rendered s1
                then s1\<lparr>newAnnouncement := True, last_rendered := rendered\<rparr> else s1)
      in if length (last_rendered s2) > 0 then
           (let s3 = createAnnouncementsButton s2 (newAnnouncement s2);
                (s4, timer) = (if wasServiceDegraded then showRecoveryNotification s3
                               else (updateButtonTooltip (updateButtonForServiceState s3), False))
            in if newAnnouncement s4 \<and> popup announcements
               then \<lparr> after = openAnnouncements s4, next_poll = n, modal_opened = True,
                      recovery_timer = timer \<rparr>
               else \<lparr> after = s4, next_poll = n, modal_opened = False,
                      recovery_timer = timer \<rparr>)
         else
           (let s3 = (case openAnnouncementButton s2 of
                        None \<Rightarrow> s2
                      | Some b \<Rightarrow>
                          s2\<lparr>openAnnouncementButton := Some (b\<lparr>textContent := TextEmpty\<rparr>)\<rparr>)
            in \<lparr> after = s3, next_poll = n, modal_opened = False, recovery_timer = False \<rparr>))"

text \<open>\<open>updateAnnouncements(url, n)\<close>, one call.\<close>

definition updateAnnouncements ::
  "(jsstring \<Rightarrow> jsstring) \<Rightarrow> RefreshAnnouncements \<Rightarrow> int \<Rightarrow> fetched \<Rightarrow> cycle" where
  "updateAnnouncements sanitizeHtml self n f =
     (case f of
        Rejected \<Rightarrow> fetch_error self n
      | Response ok status body \<Rightarrow>
          if \<not> ok \<and> shouldRetry status then fetch_error self n
          else if \<not> ok then non_retryable self n
          else (case body of
                  None \<Rightarrow> fetch_error self n
                | Some jsonData \<Rightarrow>
                    (case jsonToAnnouncementsData sanitizeHtml jsonData of
                       Inl (ValidationError reason) \<Rightarrow>
                         \<lparr> after = self, next_poll = n, modal_opened = False,
                           recovery_timer = False \<rparr>
                     | Inl TypeError \<Rightarrow> fetch_error self n
                     | Inr announcements \<Rightarrow> success self n announcements)))"

text \<open>Calls one after the other, each from the state the one before left.\<close>

fun run_cycles ::
  "(jsstring \<Rightarrow> jsstring) \<Rightarrow> int \<Rightarrow> RefreshAnnouncements \<Rightarrow> fetched list \<Rightarrow> cycle list" where
  "run_cycles sanitizeHtml n self [] = []"
| "run_cycles sanitizeHtml n self (f # fs) =
     (let c = updateAnnouncements sanitizeHtml self n f
      in c # run_cycles sanitizeHtml n (after c) fs)"

section \<open>Shapes of a timestamp\<close>

text \<open>
  A shape is a list of classes, one for each code unit: a string fits it when it has
  the length of the list and each of its code units is in the class at its place.
\<close>

fun fits :: "(jschar \<Rightarrow> bool) list \<Rightarrow> jsstring \<Rightarrow> bool" where
  "fits [] [] = True"
| "fits (p # ps) (c # cs) = (p c \<and> fits ps cs)"
| "fits ps cs = False"

definition is_ch :: "char \<Rightarrow> jschar \<Rightarrow> bool" where
  "is_ch k = (\<lambda>c. c = ch k)"

text \<open>\<open>YYYY-MM-DDThh:mm\<close> and \<open>:ss\<close>\<close>

definition date_hm :: "(jschar \<Rightarrow> bool) list" where
  "date_hm =
     [is_digit, is_digit, is_digit, is_digit, is_ch CHR ''-'', is_digit, is_digit,
      is_ch CHR ''-'', is_digit, is_digit, is_ch CHR ''T'', is_digit, is_digit,
      is_ch CHR '':'', is_digit, is_digit]"

definition secs :: "(jschar \<Rightarrow> bool) list" where
  "secs = [is_ch CHR '':'', is_digit, is_digit]"

definition digits3 :: "(jschar \<Rightarrow> bool) list" where
  "digits3 = [is_digit, is_digit, is_digit]"

text \<open>
  The shape the specification words: \<open>YYYY-MM-DDThh:mm[:ss[.fraction]]\<close>, a fraction
  being a full stop and one digit or more.
\<close>

definition iso_like :: "jsstring \<Rightarrow> bool" where
  "iso_like s =
     (fits date_hm s \<or> fits (date_hm @ secs) s
      \<or> (fits (date_hm @ secs @ [is_ch CHR ''.'']) (take 20 s)
          \<and> drop 20 s \<noteq> [] \<and> list_all is_digit (drop 20 s)))"

text \<open>
  The same with a fraction of three or of six digits after a separator of the class
  \<open>sep\<close>.
\<close>

definition iso_3_or_6 :: "(jschar \<Rightarrow> bool) \<Rightarrow> jsstring \<Rightarrow> bool" where
  "iso_3_or_6 sep s =
     (fits date_hm s \<or> fits (date_hm @ secs) s
      \<or> fits (date_hm @ secs @ sep # digits3) s
      \<or> fits (date_hm @ secs @ sep # digits3 @ digits3) s)"

section \<open>Runs of connectivity faults\<close>

text \<open>A connectivity fault, as the specification words it: \<open>fetch\<close> rejects, or the
  response is not ok and its status is one to retry.\<close>

definition connectivity_fault :: "fetched \<Rightarrow> bool" where
  "connectivity_fault f =
     (case f of Rejected \<Rightarrow> True | Response ok status body \<Rightarrow> \<not> ok \<and> shouldRetry status)"

text \<open>The delay the specification gives after the \<open>k\<close>-th fault in a row, counting
  from 0, when the interval of the poll is \<open>n\<close>: 10000, 20000, ..., 320000, and \<open>n\<close>
  once the delay has reached the ceiling, then the same again.\<close>

definition backoff_delay :: "int \<Rightarrow> nat \<Rightarrow> int" where
  "backoff_delay n k = (if k mod 7 = 6 then n else 10000 * 2 ^ (k mod 7))"


section \<open>Entities, rendered fields, phases, and a sample payload\<close>

text \<open>The four entities \<open>escapeHtml\<close> writes.\<close>

definition entities :: "jsstring list" where
  "entities = [js ''&amp;'', js ''&nbsp;'', js ''&lt;'', js ''&gt;'']"

text \<open>The fields of a message and of a block that \<open>toHtml\<close> reads.\<close>

definition message_fields :: "Message \<Rightarrow> jsstring \<times> jsstring \<times> jsstring" where
  "message_fields msg = (timestamp msg, level msg, message msg)"

definition block_fields ::
  "MessageBlock \<Rightarrow> jsstring \<times> (jsstring \<times> jsstring \<times> jsstring) list" where
  "block_fields b = (title b, map message_fields (messages b))"

text \<open>The retry delay of a poller that has seen \<open>j\<close> faults in a row since its delay
  was last 10000: a proof invariant for runs of faults.\<close>

definition at_phase :: "nat \<Rightarrow> RefreshAnnouncements \<Rightarrow> bool" where
  "at_phase j s \<longleftrightarrow>
     j < 7 \<and> maxRetryDelay s = 600000 \<and> initialRetryDelay s = 10000
     \<and> retryDelay s = (if j = 6 then 600000 else 10000 * 2 ^ j)"

text \<open>A payload of one block with one message, to be shown at once.\<close>

definition sample_message :: jsval where
  "sample_message =
     JObj [(js ''username'', JStr (js ''ops.team-1@stsci_edu'')),
           (js ''timestamp'', JStr (js ''2024-01-01T10:00:00.123456'')),
           (js ''expires'', JStr (js ''1-00:00:00'')),
           (js ''level'', JStr (js ''warning'')),
           (js ''message'', JStr (js ''Maintenance at noon''))]"

definition sample_payload :: jsval where
  "sample_payload =
     JObj [(js ''popup'', JBool True),
           (js ''timestamp'', JStr (js ''2024-01-01T10:00:00'')),
           (js ''blocks'',
            JArr [JObj [(js ''title'', JStr (js ''News'')),
                        (js ''messages'', JArr [sample_message])]])]"

definition sample_data :: AnnouncementsData where
  "sample_data =
     \<lparr> popup = True,
       ad_timestamp = js ''2024-01-01T10:00:00'',
       blocks =
         [\<lparr> title = js ''News'',
            messages =
              [\<lparr> username = js ''ops.team-1@stsci_edu'',
                 timestamp = js ''2024-01-01T10:00:00.123456'',
                 expires = js ''1-00:00:00'',
                 level = js ''warning'',
                 message = js ''Maintenance at noon'' \<rparr>] \<rparr>] \<rparr>"

section \<open>The matcher decides the language of a pattern\<close>

inductive_cases accepts_NeverE: "accepts Never w"
inductive_cases accepts_EmptyE: "accepts Empty w"
inductive_cases accepts_SymE: "accepts (Sym p) w"
inductive_cases accepts_SeqE: "accepts (Seq r s) w"
inductive_cases accepts_AltE: "accepts (Alt r s) w"

lemma accepts_Never [simp]: "\<not> accepts Never w"
  by (auto elim: accepts_NeverE)

lemma accepts_Empty [simp]: "accepts Empty w \<longleftrightarrow> w = []"
  by (auto elim: accepts_EmptyE intro: acc_Empty)

lemma accepts_Sym [simp]: "accepts (Sym p) w \<longleftrightarrow> (\<exists>c. w = [c] \<and> p c)"
  by (auto elim: accepts_SymE intro: acc_Sym)

lemma accepts_Seq: "accepts (Seq r s) w \<longleftrightarrow> (\<exists>u v. w = u @ v \<and> accepts r u \<and> accepts s v)"
  by (blast elim: accepts_SeqE intro: acc_Seq)

lemma accepts_Alt [simp]: "accepts (Alt r s) w \<longleftrightarrow> accepts r w \<or> accepts s w"
  by (auto elim: accepts_AltE intro: acc_AltL acc_AltR)

lemma accepts_nil_nullable: "accepts r w \<Longrightarrow> w = [] \<Longrightarrow> nullable r"
  by (induction rule: accepts.induct) auto

lemma nullable_accepts_nil: "nullable r \<Longrightarrow> accepts r []"
proof (induction r)
  case (Seq r s)
  then have "accepts r []" and "accepts s []" by simp_all
  then have "accepts (Seq r s) ([] @ [])" by (rule acc_Seq)
  then show ?case by simp
qed (auto intro: acc_StarNil)

lemma nullable_iff: "nullable r \<longleftrightarrow> accepts r []"
  using accepts_nil_nullable nullable_accepts_nil by blast

lemma accepts_Star_Cons:
  "accepts q x \<Longrightarrow> q = Star r \<Longrightarrow> x = c # w \<Longrightarrow>
     \<exists>u v. w = u @ v \<and> accepts r (c # u) \<and> accepts (Star r) v"
proof (induction arbitrary: w rule: accepts.induct)
  case (acc_StarStep r' u v)
  show ?case
  proof (cases u)
    case Nil
    with acc_StarStep show ?thesis by simp
  next
    case (Cons a u')
    with acc_StarStep have "w = u' @ v" "accepts r (c # u')" "accepts (Star r) v" by auto
    then show ?thesis by blast
  qed
qed simp_all

lemma accepts_deriv: "accepts (deriv c r) w \<longleftrightarrow> accepts r (c # w)"
proof (induction r arbitrary: w)
  case (Seq r s)
  show ?case
  proof
    assume "accepts (deriv c (Seq r s)) w"
    then consider (l) u v where "w = u @ v" "accepts (deriv c r) u" "accepts s v"
      | (r) "nullable r" "accepts (deriv c s) w"
      by (auto simp: accepts_Seq split: if_splits)
    then show "accepts (Seq r s) (c # w)"
    proof cases
      case l
      then have "accepts r (c # u)" using Seq.IH(1) by simp
      then have "accepts (Seq r s) ((c # u) @ v)" using l(3) by (rule acc_Seq)
      then show ?thesis using l(1) by simp
    next
      case r
      then have "accepts r []" "accepts s (c # w)" using Seq.IH(2) by (simp_all add: nullable_iff)
      then have "accepts (Seq r s) ([] @ c # w)" by (rule acc_Seq)
      then show ?thesis by simp
    qed
  next
    assume "accepts (Seq r s) (c # w)"
    then obtain u v where uv: "c # w = u @ v" "accepts r u" "accepts s v"
      by (auto simp: accepts_Seq)
    show "accepts (deriv c (Seq r s)) w"
    proof (cases u)
      case Nil
      with uv have "nullable r" "accepts (deriv c s) w" using Seq.IH(2) by (simp_all add: nullable_iff)
      then show ?thesis by simp
    next
      case (Cons a u')
      with uv have "w = u' @ v" "accepts (deriv c r) u'" using Seq.IH(1) by simp_all
      then have "accepts (Seq (deriv c r) s) w" using uv(3) by (auto simp: accepts_Seq)
      then show ?thesis by simp
    qed
  qed
next
  case (Star r)
  show ?case
  proof
    assume "accepts (deriv c (Star r)) w"
    then obtain u v where "w = u @ v" "accepts (deriv c r) u" "accepts (Star r) v"
      by (auto simp: accepts_Seq)
    then have "accepts r (c # u)" "accepts (Star r) v" using Star.IH by simp_all
    then have "accepts (Star r) ((c # u) @ v)" by (rule acc_StarStep)
    then show "accepts (Star r) (c # w)" using \<open>w = u @ v\<close> by simp
  next
    assume "accepts (Star r) (c # w)"
    then obtain u v where "w = u @ v" "accepts r (c # u)" "accepts (Star r) v"
      using accepts_Star_Cons by blast
    then show "accepts (deriv c (Star r)) w" using Star.IH by (auto simp: accepts_Seq)
  qed
qed auto

lemma matches_iff_accepts: "matches r w \<longleftrightarrow> accepts r w"
  by (induction w arbitrary: r) (simp_all add: nullable_iff accepts_deriv)

lemma matches_Empty: "matches Empty w \<longleftrightarrow> w = []"
  by (simp add: matches_iff_accepts)

lemma matches_Seq_Empty: "matches (Seq Empty r) w \<longleftrightarrow> matches r w"
  by (simp add: matches_iff_accepts accepts_Seq)

lemma matches_Seq_Never: "\<not> matches (Seq Never r) w"
  by (simp add: matches_iff_accepts accepts_Seq)

lemma matches_Sym_Seq: "matches (Seq (Sym p) r) w \<longleftrightarrow> (\<exists>c t. w = c # t \<and> p c \<and> matches r t)"
  by (cases w) (simp_all add: matches_Seq_Empty matches_Seq_Never)

lemma matches_opt: "matches (opt r) w \<longleftrightarrow> matches r w \<or> w = []"
  by (simp add: matches_iff_accepts opt_def)

lemma accepts_Star_Sym_all: "accepts q w \<Longrightarrow> q = Star (Sym p) \<Longrightarrow> list_all p w"
  by (induction rule: accepts.induct) auto

lemma all_accepts_Star_Sym: "list_all p w \<Longrightarrow> accepts (Star (Sym p)) w"
proof (induction w)
  case Nil
  show ?case by (rule acc_StarNil)
next
  case (Cons c w)
  then have "accepts (Sym p) [c]" "accepts (Star (Sym p)) w" by simp_all
  then have "accepts (Star (Sym p)) ([c] @ w)" by (rule acc_StarStep)
  then show ?case by simp
qed

lemma matches_Star_Sym: "matches (Star (Sym p)) w \<longleftrightarrow> list_all p w"
  using accepts_Star_Sym_all all_accepts_Star_Sym by (auto simp: matches_iff_accepts)

lemma matches_plus_Sym: "matches (plus (Sym p)) w \<longleftrightarrow> w \<noteq> [] \<and> list_all p w"
  by (cases w) (auto simp: plus_def matches_Seq_Empty matches_Seq_Never matches_Star_Sym)

section \<open>The timestamp pattern as a shape\<close>

lemma fits_length: "fits ps w \<Longrightarrow> length w = length ps"
  by (induction ps w rule: fits.induct) auto

lemma fits_Nil: "fits [] w \<longleftrightarrow> w = []"
  by (cases w) simp_all

lemma fits_append:
  "fits (ps @ qs) w \<longleftrightarrow> fits ps (take (length ps) w) \<and> fits qs (drop (length ps) w)"
proof (induction ps arbitrary: w)
  case Nil
  show ?case by (cases qs; cases w) simp_all
next
  case (Cons p ps)
  show ?case by (cases w) (simp_all add: Cons.IH)
qed

lemma fits_exact: "fits ps w \<longleftrightarrow> fits ps (take (length ps) w) \<and> drop (length ps) w = []"
  using fits_append [of ps "[]" w] by (simp add: fits_Nil)

lemma fits_mono:
  "fits ps w \<Longrightarrow> list_all2 (\<lambda>p q. \<forall>c. p c \<longrightarrow> q c) ps qs \<Longrightarrow> fits qs w"
proof (induction ps w arbitrary: qs rule: fits.induct)
  case 1
  then show ?case by simp
next
  case (2 p ps c cs)
  then show ?case by (cases qs) auto
qed simp_all

lemma matches_Seq_Empty_right: "matches (Seq r Empty) w \<longleftrightarrow> matches r w"
  by (simp add: matches_iff_accepts accepts_Seq)

lemma matches_seqs_Sym:
  "matches (seqs (map Sym ps @ rs)) w \<longleftrightarrow>
     fits ps (take (length ps) w) \<and> matches (seqs rs) (drop (length ps) w)"
proof (induction ps arbitrary: w)
  case Nil
  show ?case by simp
next
  case (Cons p ps)
  show ?case by (cases w) (simp_all add: matches_Seq_Empty matches_Seq_Never Cons.IH)
qed

lemma matches_seqs_Sym_end:
  "matches (seqs (map Sym ps)) w \<longleftrightarrow>
     fits ps (take (length ps) w) \<and> drop (length ps) w = []"
  using matches_seqs_Sym [of ps "[]" w] by (simp add: matches_Empty del: matches.simps)

lemma timestamp_re_shape:
  "timestamp_re =
     seqs (map Sym date_hm @
       [opt (seqs (map Sym secs @
          [opt (seqs (map Sym (is_dot # digits3) @
             [opt (seqs (map Sym digits3))]))]))])"
  by (simp add: timestamp_re_def date_hm_def secs_def digits3_def digit_def lit_def is_ch_def)

lemma shape_lengths:
  "length date_hm = 16" "length secs = 3" "length digits3 = 3"
  by (simp_all add: date_hm_def secs_def digits3_def)

lemma matches_timestamp_re_parts:
  "matches timestamp_re s \<longleftrightarrow>
     fits date_hm (take 16 s) \<and>
       (drop 16 s = [] \<or>
        fits secs (take 3 (drop 16 s)) \<and>
          (drop 19 s = [] \<or>
           fits (is_dot # digits3) (take 4 (drop 19 s)) \<and>
             (drop 23 s = [] \<or> fits digits3 (take 3 (drop 23 s)) \<and> drop 26 s = [])))"
proof -
  have four: "length (is_dot # digits3) = 4"
    by (simp add: shape_lengths)
  show ?thesis
    unfolding timestamp_re_shape
    apply (simp only: matches_seqs_Sym matches_opt seqs.simps matches_Seq_Empty_right
          matches_seqs_Sym_end matches_Empty shape_lengths four drop_drop)
    apply (simp del: matches.simps fits.simps)
    apply blast
    done
qed

lemma fits_date_hm: "fits date_hm s \<longleftrightarrow> fits date_hm (take 16 s) \<and> drop 16 s = []"
  using fits_exact [of date_hm s] by (simp add: shape_lengths)

lemma fits_date_hm_secs:
  "fits (date_hm @ secs) s \<longleftrightarrow>
     fits date_hm (take 16 s) \<and> fits secs (take 3 (drop 16 s)) \<and> drop 19 s = []"
  using fits_exact [of secs "drop 16 s"] by (simp add: fits_append shape_lengths)

lemma fits_fraction3:
  "fits (date_hm @ secs @ sep # digits3) s \<longleftrightarrow>
     fits date_hm (take 16 s) \<and> fits secs (take 3 (drop 16 s))
     \<and> fits (sep # digits3) (take 4 (drop 19 s)) \<and> drop 23 s = []"
  using fits_exact [of "sep # digits3" "drop 19 s"] by (simp add: fits_append shape_lengths)

lemma fits_fraction6:
  "fits (date_hm @ secs @ sep # digits3 @ digits3) s \<longleftrightarrow>
     fits date_hm (take 16 s) \<and> fits secs (take 3 (drop 16 s))
     \<and> fits (sep # digits3) (take 4 (drop 19 s))
     \<and> fits digits3 (take 3 (drop 23 s)) \<and> drop 26 s = []"
  using fits_exact [of digits3 "drop 23 s"]
    fits_append [of "sep # digits3" digits3 "drop 19 s"]
  by (simp add: fits_append shape_lengths)

lemma matches_timestamp_re: "matches timestamp_re s \<longleftrightarrow> iso_3_or_6 is_dot s"
  unfolding iso_3_or_6_def
  using matches_timestamp_re_parts [of s] fits_date_hm [of s] fits_date_hm_secs [of s]
    fits_fraction3 [of is_dot s] fits_fraction6 [of is_dot s]
  by blast

section \<open>The plain-text sanitizer\<close>

lemma escape_cu_no_angle:
  "ch CHR ''<'' \<notin> set (escape_cu c) \<and> ch CHR ''>'' \<notin> set (escape_cu c)"
  by (simp add: escape_cu_def js_def ch_def)

lemma escape_cu_amp:
  assumes "i < length (escape_cu c)" and "escape_cu c ! i = ch CHR ''&''"
  shows "i = 0 \<and> escape_cu c \<in> set entities"
proof -
  consider "c = ch CHR ''&''" | "c = 0xA0" | "c = ch CHR ''<''" | "c = ch CHR ''>''"
    | "c \<noteq> ch CHR ''&''" "c \<noteq> 0xA0" "c \<noteq> ch CHR ''<''" "c \<noteq> ch CHR ''>''"
    by blast
  then show ?thesis
  proof cases
    case 5
    with assms show ?thesis by (simp add: escape_cu_def)
  qed (use assms in \<open>auto simp: escape_cu_def entities_def js_def ch_def less_Suc_eq nth_Cons'
         split: if_splits\<close>)
qed

lemma escapeHtml_amp_entity:
  "i < length (escapeHtml s) \<Longrightarrow> escapeHtml s ! i = ch CHR ''&'' \<Longrightarrow>
     \<exists>ent \<in> set entities. take (length ent) (drop i (escapeHtml s)) = ent"
proof (induction s arbitrary: i)
  case Nil
  then show ?case by (simp add: escapeHtml_def)
next
  case (Cons c s)
  have eq: "escapeHtml (c # s) = escape_cu c @ escapeHtml s"
    by (simp add: escapeHtml_def)
  show ?case
  proof (cases "i < length (escape_cu c)")
    case True
    with Cons.prems have "escape_cu c ! i = ch CHR ''&''" by (simp add: eq nth_append)
    with True have "i = 0" "escape_cu c \<in> set entities" using escape_cu_amp by blast+
    then have "take (length (escape_cu c)) (drop i (escapeHtml (c # s))) = escape_cu c"
      by (simp add: eq)
    with \<open>escape_cu c \<in> set entities\<close> show ?thesis by blast
  next
    case False
    define j where "j = i - length (escape_cu c)"
    with False Cons.prems have "j < length (escapeHtml s)" "escapeHtml s ! j = ch CHR ''&''"
      by (auto simp: eq nth_append)
    then obtain ent where "ent \<in> set entities" "take (length ent) (drop j (escapeHtml s)) = ent"
      using Cons.IH by blast
    moreover have "drop i (escapeHtml (c # s)) = drop j (escapeHtml s)"
      using False by (simp add: eq j_def)
    ultimately show ?thesis by auto
  qed
qed

text \<open>
  The revision that reads \<open>innerHTML\<close> neutralizes markup for every string: its result
  has no \<open><\<close> and no \<open>>\<close>, and every \<open>&\<close> in it starts one of the four entities.
\<close>

lemma escapeHtml_neutralizes:
  "ch CHR ''<'' \<notin> set (escapeHtml s) \<and> ch CHR ''>'' \<notin> set (escapeHtml s)
   \<and> (\<forall>i < length (escapeHtml s). escapeHtml s ! i = ch CHR ''&'' \<longrightarrow>
         (\<exists>ent \<in> set entities. take (length ent) (drop i (escapeHtml s)) = ent))"
  using escape_cu_no_angle escapeHtml_amp_entity by (auto simp: escapeHtml_def)

text \<open>
  C1. The claim: for every string, \<open>escapeHtml\<close> returns it with markup neutralized, so
  that the result has no unescaped \<open><\<close> or \<open>>\<close>. The revision of \<open>src/index.ts\<close>
  reads \<open>innerText\<close> where the other revision reads \<open>innerHTML\<close>, and so returns its
  argument as it is: on \<open><b>\<close> the result is \<open><b>\<close>, with both angle brackets in
  it.
\<close>

theorem escapeHtml_innerText_keeps_markup:
  "escapeHtml_innerText (js ''<b>'') = js ''<b>''
   \<and> ch CHR ''<'' \<in> set (escapeHtml_innerText (js ''<b>''))
   \<and> ch CHR ''>'' \<in> set (escapeHtml_innerText (js ''<b>''))"
  by (simp add: escapeHtml_innerText_def js_def)

section \<open>The parser\<close>

lemma sample_message_parses:
  "message_of (\<lambda>x. x) sample_message
     = Inr \<lparr> username = js ''ops.team-1@stsci_edu'',
             timestamp = js ''2024-01-01T10:00:00.123456'',
             expires = js ''1-00:00:00'',
             level = js ''warning'',
             message = js ''Maintenance at noon'' \<rparr>"
  by (simp add: message_of_def sample_message_def Message_new_def js_def ch_def
        username_ok_def username_re_def plus_def is_username_char_def
        timestamp_ok_def timestamp_re_def digit_def lit_def opt_def is_dot_def is_digit_def
        expires_ok_def expires_re_def level_ok_def levels_def message_ok_def
        escapeHtml_def escape_cu_def)

lemma sample_payload_parses:
  "jsonToAnnouncementsData (\<lambda>x. x) sample_payload = Inr sample_data"
  using sample_message_parses
  by (simp add: jsonToAnnouncementsData_def sample_payload_def sample_data_def block_of_def
        MessageBlock_new_def AnnouncementsData_new_def)
    (simp add: js_def ch_def escapeHtml_def escape_cu_def)

lemma sample_rendering_nonempty: "AnnouncementsData_toHtml sample_data \<noteq> []"
  by (simp add: AnnouncementsData_toHtml_def sample_data_def announcement_open_def js_def)

text \<open>Two more payloads that end in a TypeError: a block that is \<open>null\<close>, and a
  \<open>timestamp\<close> that is an object with a \<open>toString\<close> property.\<close>

lemma null_block_is_type_error:
  "jsonToAnnouncementsData sanitizeHtml (JObj [(js ''blocks'', JArr [JNull])]) = Inl TypeError"
  by (simp add: jsonToAnnouncementsData_def block_of_def js_def ch_def)

lemma timestamp_object_is_type_error:
  "jsonToAnnouncementsData sanitizeHtml
     (JObj [(js ''popup'', JBool True),
            (js ''timestamp'', JObj [(js ''toString'', JNum (js ''1''))]),
            (js ''blocks'', JArr [])]) = Inl TypeError"
  by (simp add: jsonToAnnouncementsData_def AnnouncementsData_new_def js_def ch_def)

text \<open>
  C2. The claim: for every input, \<open>null\<close> included, \<open>jsonToAnnouncementsData\<close> returns
  a validated object or fails with a validation error, never with another fault. On
  \<open>null\<close> the first statement reads \<open>jsonData.blocks\<close>, which raises a TypeError before
  any check runs; \<open>updateAnnouncements\<close> then takes the branch of a fetch error and
  backs off.
\<close>

theorem null_payload_is_type_error:
  "jsonToAnnouncementsData sanitizeHtml JNull = Inl TypeError
   \<and> updateAnnouncements sanitizeHtml self n (Response True 200 (Some JNull))
     = fetch_error self n"
  by (simp add: jsonToAnnouncementsData_def updateAnnouncements_def)

text \<open>
  On every input whose \<open>blocks\<close> can be read, the shape is checked before any message
  is constructed. When the read of \<open>blocks\<close> gives a value that is not an array
  (\<open>undefined\<close> when the property is absent), the result is the validation error of the
  blocks: there is no block, so no message is constructed. Within a block, when the read
  of \<open>messages\<close> gives a value that is not an array of 1 to 16 items, the result is the
  validation error of the messages array whatever the items are: also when an item is
  \<open>null\<close> or an invalid message, for which constructing it would raise a different
  error.
\<close>

lemma shape_checked_before_messages:
  "(getProp jsonData ''blocks'' = Inr bv \<and> (\<forall>bds. bv \<noteq> JArr bds)
      \<longrightarrow> jsonToAnnouncementsData sanitizeHtml jsonData
            = Inl (ValidationError ''Bad blocks array.''))
   \<and> (getProp blockData ''messages'' = Inr mv
       \<and> (\<forall>ms. mv = JArr ms \<longrightarrow> length ms = 0 \<or> length ms > 16)
      \<longrightarrow> block_of sanitizeHtml blockData = Inl (ValidationError ''Bad messages array.''))"
  by (cases bv; cases mv) (auto simp: jsonToAnnouncementsData_def block_of_def)

lemma shape_checked_before_messages_example:
  "jsonToAnnouncementsData (\<lambda>x. x) (JObj [(js ''popup'', JBool True)])
     = Inl (ValidationError ''Bad blocks array.'')
   \<and> block_of (\<lambda>x. x) (JObj [(js ''title'', JStr (js ''News'')),
          (js ''messages'', JArr (replicate 17 JNull))])
     = Inl (ValidationError ''Bad messages array.'')"
  using shape_checked_before_messages [where jsonData = "JObj [(js ''popup'', JBool True)]"
      and bv = JUndefined and sanitizeHtml = "\<lambda>x. x" and mv = "JArr (replicate 17 JNull)"
      and blockData = "JObj [(js ''title'', JStr (js ''News'')),
          (js ''messages'', JArr (replicate 17 JNull))]"]
  by (simp add: js_def ch_def)

text \<open>
  C7. The claim: every input whose \<open>blocks\<close> is absent or not an array fails with a
  validation fault before any message is constructed, and within each block the shape of
  \<open>messages\<close> is checked before any message of the block is constructed. The input
  \<open>null\<close> has no \<open>blocks\<close>, and on it the check of \<open>blocks\<close> is never reached:
  the read \<open>jsonData.blocks\<close> inside the check raises a TypeError, so the failure is not
  the validation error of the blocks. A block that is \<open>null\<close> has no \<open>messages\<close>,
  and the read \<open>blockData.messages\<close> raises a TypeError in the same way, before the
  check of the shape.
\<close>

theorem null_input_skips_shape_checks:
  "getProp JNull ''blocks'' = Inl TypeError
   \<and> jsonToAnnouncementsData sanitizeHtml JNull \<noteq> Inl (ValidationError ''Bad blocks array.'')
   \<and> getProp JNull ''messages'' = Inl TypeError
   \<and> block_of sanitizeHtml JNull \<noteq> Inl (ValidationError ''Bad messages array.'')
   \<and> jsonToAnnouncementsData sanitizeHtml (JObj [(js ''blocks'', JArr [JNull])])
       = Inl TypeError"
  by (simp add: jsonToAnnouncementsData_def block_of_def js_def ch_def)

section \<open>The checks of a message\<close>

lemma username_ok_iff:
  "username_ok (JStr s) \<longleftrightarrow> s \<noteq> [] \<and> length s \<le> 32 \<and> list_all is_username_char s"
  by (auto simp: username_ok_def username_re_def matches_plus_Sym simp del: matches.simps)

lemma space_not_username_char: "\<not> is_username_char (ch CHR '' '')"
  by (simp add: is_username_char_def ch_def)

text \<open>
  C6. A username of 33 code units or more, an empty one, one with a space in it, and one
  with any code unit outside \<open>[A-Za-z0-9_@.-]\<close> make the constructor of a message fail
  with the validation error of the username, whatever the other arguments are; a username
  of 1 to 32 code units, all of that class, passes the check of the username.
\<close>

theorem username_check:
  "(length s \<ge> 33 \<or> s = [] \<or> ch CHR '' '' \<in> set s \<or> (\<exists>c \<in> set s. \<not> is_username_char c)
      \<longrightarrow> Message_new sanitizeHtml (JStr s) t e l m
            = Inl (ValidationError ''Bad message username.''))
   \<and> (1 \<le> length s \<and> length s \<le> 32 \<and> (\<forall>c \<in> set s. is_username_char c)
      \<longrightarrow> username_ok (JStr s))"
proof -
  have "\<not> username_ok (JStr s)"
    if "length s \<ge> 33 \<or> s = [] \<or> ch CHR '' '' \<in> set s \<or> (\<exists>c \<in> set s. \<not> is_username_char c)"
    using that space_not_username_char by (auto simp: username_ok_iff list_all_iff)
  moreover have "username_ok (JStr s)"
    if "1 \<le> length s \<and> length s \<le> 32 \<and> (\<forall>c \<in> set s. is_username_char c)"
    using that by (auto simp: username_ok_iff list_all_iff)
  ultimately show ?thesis by (simp add: Message_new_def)
qed

theorem username_check_witness:
  "Message_new (\<lambda>x. x) (JStr (js ''a b'')) JNull JNull JNull JNull
     = Inl (ValidationError ''Bad message username.'')
   \<and> username_ok (JStr (js ''first.last-1@stsci_edu''))"
  using username_check [of "js ''a b''" "\<lambda>x. x" JNull JNull JNull JNull]
    username_check [of "js ''first.last-1@stsci_edu''" "\<lambda>x. x" JNull JNull JNull JNull]
  by (simp add: js_def ch_def is_username_char_def)

lemma iso_3_or_6_mono:
  assumes "iso_3_or_6 p s" and "\<And>c. p c \<Longrightarrow> q c"
  shows "iso_3_or_6 q s"
proof -
  have m: "list_all2 (\<lambda>p q. \<forall>c. p c \<longrightarrow> q c) (date_hm @ secs @ p # ds) (date_hm @ secs @ q # ds)"
    for ds
    using assms(2) by (simp add: list_all2_appendI list_all2_refl)
  from assms(1) show ?thesis
    unfolding iso_3_or_6_def using fits_mono [OF _ m] by blast
qed

text \<open>The pattern of the source has \<open>.\<close> where a full stop was meant, so that any
  code unit but a line terminator separates the fraction; \<open>fmtTimestamp\<close>, which cuts
  the fraction off at the first full stop, then keeps it.\<close>

lemma timestamp_separator_any:
  "timestamp_ok (JStr (js ''2024-01-01T10:00:00X123''))
   \<and> fmtTimestamp \<lparr> username = [], timestamp = js ''2024-01-01T10:00:00X123'', expires = [],
         level = [], message = [] \<rparr>
     = js ''<td class='announce-timestamp'>[2024-01-01T10:00:00X123]</td>''"
  by (simp add: js_def ch_def fmtTimestamp_def split_dot_first_def
        timestamp_ok_def timestamp_re_def digit_def lit_def opt_def is_dot_def is_digit_def)

text \<open>
  C5, as amended. A timestamp of the form \<open>YYYY-MM-DDThh:mm\<close>, with \<open>:ss\<close> after it
  or not, and after \<open>:ss\<close> a full stop and three or six digits or not, passes the check
  of the timestamp. A timestamp that is not of the form \<open>YYYY-MM-DDThh:mm\<close>, then
  \<open>:ss\<close> or not, then one code unit and three or six digits or not, makes the
  constructor of a message fail with a validation error.
\<close>

theorem timestamp_check:
  "(iso_3_or_6 (is_ch CHR ''.'') s \<longrightarrow> timestamp_ok (JStr s))
   \<and> (\<not> iso_3_or_6 (\<lambda>c. True) s
      \<longrightarrow> (\<exists>reason. Message_new sanitizeHtml u (JStr s) e l m = Inl (ValidationError reason)))"
proof -
  have dot: "is_dot c" if "is_ch CHR ''.'' c" for c
    using that by (simp add: is_ch_def is_dot_def ch_def)
  have "timestamp_ok (JStr s)" if "iso_3_or_6 (is_ch CHR ''.'') s"
    using iso_3_or_6_mono [OF that dot] by (simp add: timestamp_ok_def matches_timestamp_re)
  moreover have "\<not> timestamp_ok (JStr s)" if "\<not> iso_3_or_6 (\<lambda>c. True) s"
    using that iso_3_or_6_mono [of is_dot s "\<lambda>c. True"]
    by (auto simp: timestamp_ok_def matches_timestamp_re)
  ultimately show ?thesis by (simp add: Message_new_def)
qed

theorem timestamp_check_witness:
  "timestamp_ok (JStr (js ''2024-01-01T10:00:00.123456''))
   \<and> (\<exists>reason. Message_new (\<lambda>x. x) (JStr (js ''alice'')) (JStr (js ''2024-01-01 10:00''))
         (JStr (js ''1-00:00:00'')) (JStr (js ''info'')) (JStr (js ''hello''))
         = Inl (ValidationError reason))"
  using timestamp_check [of "js ''2024-01-01T10:00:00.123456''"]
    timestamp_check [of "js ''2024-01-01 10:00''" "\<lambda>x. x" "JStr (js ''alice'')"
      "JStr (js ''1-00:00:00'')" "JStr (js ''info'')" "JStr (js ''hello'')"]
  by (simp add: iso_3_or_6_def date_hm_def secs_def digits3_def js_def ch_def is_ch_def
        is_digit_def)

text \<open>The claim as it was stated fails: a timestamp with a fraction of one digit has the
  shape \<open>YYYY-MM-DDThh:mm:ss.fraction\<close>, and the constructor rejects it.\<close>

theorem timestamp_check_counterexample:
  "iso_like (js ''2024-01-01T10:00:00.5'')
   \<and> Message_new (\<lambda>x. x) (JStr (js ''alice'')) (JStr (js ''2024-01-01T10:00:00.5''))
        (JStr (js ''1-00:00:00'')) (JStr (js ''info'')) (JStr (js ''hello''))
      = Inl (ValidationError ''Bad message timestamp.'')"
  by (simp add: iso_like_def date_hm_def secs_def js_def ch_def is_ch_def is_digit_def
        Message_new_def username_ok_def username_re_def plus_def is_username_char_def
        timestamp_ok_def timestamp_re_def digit_def lit_def opt_def is_dot_def)

section \<open>Blocks and rendering\<close>

lemma map_throwing_all:
  "map_throwing f xs = Inr ys \<Longrightarrow> \<forall>y \<in> set ys. \<exists>x \<in> set xs. f x = Inr y"
  by (induction xs arbitrary: ys) (auto split: sum.splits)

lemma block_of_messages:
  "block_of sanitizeHtml blockData = Inr b \<Longrightarrow>
     1 \<le> length (messages b) \<and> length (messages b) \<le> 16"
  by (auto simp: block_of_def MessageBlock_new_def Suc_le_eq
      split: sum.splits jsval.splits if_splits)

text \<open>Every block of a parsed payload has 1 to 16 messages and a rendering that is not
  empty.\<close>

lemma parsed_blocks_have_rows:
  assumes "jsonToAnnouncementsData sanitizeHtml jsonData = Inr a" and "b \<in> set (blocks a)"
  shows "1 \<le> length (messages b) \<and> length (messages b) \<le> 16 \<and> MessageBlock_toHtml b \<noteq> []"
proof -
  from assms(1) obtain bds where "map_throwing (block_of sanitizeHtml) bds = Inr (blocks a)"
    by (auto simp: jsonToAnnouncementsData_def AnnouncementsData_new_def
        split: sum.splits jsval.splits)
  with assms(2) obtain bd where "block_of sanitizeHtml bd = Inr b"
    using map_throwing_all by blast
  then have "1 \<le> length (messages b) \<and> length (messages b) \<le> 16"
    by (rule block_of_messages)
  then show ?thesis by (auto simp: MessageBlock_toHtml_def block_open_def js_def)
qed

text \<open>
  C10. A block that the constructor returns has 1 to 16 messages. Its rendering is not
  the empty string: the branch of \<open>toHtml\<close> for no messages is not taken, and the
  rendering is the table with the title and, joined by line feeds, one row for each
  message, in the order of the messages.
\<close>

theorem constructed_block_rows:
  assumes "MessageBlock_new sanitizeHtml t msgs = Inr b"
  shows "1 \<le> length (messages b) \<and> length (messages b) \<le> 16
    \<and> MessageBlock_toHtml b \<noteq> []
    \<and> (\<exists>rows. length rows = length (messages b)
          \<and> (\<forall>i < length rows. rows ! i = Message_toHtml (messages b ! i))
          \<and> MessageBlock_toHtml b
              = block_open @ title b @ block_middle @ join (js ''\<newline>'') rows @ block_close)"
proof -
  from assms have m: "messages b = msgs" and len: "msgs \<noteq> []" "length msgs \<le> 16"
    by (auto simp: MessageBlock_new_def split: if_splits)
  have "MessageBlock_toHtml b
      = block_open @ title b @ block_middle
          @ join (js ''\<newline>'') (map Message_toHtml (messages b)) @ block_close"
    using m len by (auto simp: MessageBlock_toHtml_def)
  moreover have "MessageBlock_toHtml b \<noteq> []"
    using m len by (simp add: MessageBlock_toHtml_def block_open_def js_def)
  ultimately show ?thesis
    using m len
    by (intro conjI exI [of _ "map Message_toHtml (messages b)"]) (simp_all add: Suc_le_eq)
qed

theorem constructed_block_rows_witness:
  "MessageBlock_new (\<lambda>x. x) (JStr (js ''News'')) (messages (hd (blocks sample_data)))
     = Inr (hd (blocks sample_data))
   \<and> length (messages (hd (blocks sample_data))) = 1
   \<and> MessageBlock_toHtml (hd (blocks sample_data)) \<noteq> []"
  using constructed_block_rows [of "\<lambda>x. x" "JStr (js ''News'')"
      "messages (hd (blocks sample_data))" "hd (blocks sample_data)"]
  by (simp add: MessageBlock_new_def sample_data_def js_def)

lemma Message_toHtml_fields:
  "message_fields m1 = message_fields m2 \<Longrightarrow> Message_toHtml m1 = Message_toHtml m2"
  by (simp add: message_fields_def Message_toHtml_def fmtTimestamp_def fmtLevel_def
        fmtMessage_def)

lemma map_Message_toHtml_fields:
  "map message_fields ms1 = map message_fields ms2 \<Longrightarrow>
     map Message_toHtml ms1 = map Message_toHtml ms2"
proof (induction ms1 arbitrary: ms2)
  case Nil
  then show ?case by simp
next
  case (Cons m ms1)
  then obtain m' ms2' where ms2: "ms2 = m' # ms2'"
    and hd: "message_fields m = message_fields m'"
    and tl: "map message_fields ms1 = map message_fields ms2'"
    by (cases ms2) auto
  from hd have "Message_toHtml m = Message_toHtml m'" by (rule Message_toHtml_fields)
  moreover from tl have "map Message_toHtml ms1 = map Message_toHtml ms2'" by (rule Cons.IH)
  ultimately show ?case by (simp add: ms2)
qed

lemma MessageBlock_toHtml_fields:
  assumes "block_fields b1 = block_fields b2"
  shows "MessageBlock_toHtml b1 = MessageBlock_toHtml b2"
proof -
  from assms have t: "title b1 = title b2"
    and f: "map message_fields (messages b1) = map message_fields (messages b2)"
    by (simp_all add: block_fields_def)
  from f have "length (messages b1) = length (messages b2)"
    by (rule map_eq_imp_length_eq)
  with t map_Message_toHtml_fields [OF f] show ?thesis
    by (simp add: MessageBlock_toHtml_def)
qed

lemma map_MessageBlock_toHtml_fields:
  "map block_fields bs1 = map block_fields bs2 \<Longrightarrow>
     map MessageBlock_toHtml bs1 = map MessageBlock_toHtml bs2"
proof (induction bs1 arbitrary: bs2)
  case Nil
  then show ?case by simp
next
  case (Cons b bs1)
  then obtain b' bs2' where bs2: "bs2 = b' # bs2'"
    and hd: "block_fields b = block_fields b'"
    and tl: "map block_fields bs1 = map block_fields bs2'"
    by (cases bs2) auto
  from hd have "MessageBlock_toHtml b = MessageBlock_toHtml b'"
    by (rule MessageBlock_toHtml_fields)
  moreover from tl have "map MessageBlock_toHtml bs1 = map MessageBlock_toHtml bs2'"
    by (rule Cons.IH)
  ultimately show ?case by (simp add: bs2)
qed

text \<open>
  C8. \<open>toHtml\<close> assigns to nothing and reads nothing but fields of the object: the
  titles of its blocks and the timestamp, level and message of their messages. So two
  objects that agree on these fields render to the same string, and two calls on one
  object, with no assignment to it in between, give the same string.
\<close>

theorem toHtml_function_of_fields:
  assumes "map block_fields (blocks a1) = map block_fields (blocks a2)"
  shows "AnnouncementsData_toHtml a1 = AnnouncementsData_toHtml a2"
proof -
  from assms have "length (blocks a1) = length (blocks a2)"
    by (rule map_eq_imp_length_eq)
  with map_MessageBlock_toHtml_fields [OF assms] show ?thesis
    by (simp add: AnnouncementsData_toHtml_def)
qed

theorem toHtml_function_of_fields_witness:
  "AnnouncementsData_toHtml sample_data
     = AnnouncementsData_toHtml (sample_data\<lparr>popup := False, ad_timestamp := js ''later''\<rparr>)
   \<and> AnnouncementsData_toHtml sample_data = AnnouncementsData_toHtml sample_data"
  using toHtml_function_of_fields [of sample_data
      "sample_data\<lparr>popup := False, ad_timestamp := js ''later''\<rparr>"]
    toHtml_function_of_fields [of sample_data sample_data]
  by simp

section \<open>The poller\<close>

lemma fault_is_fetch_error:
  "connectivity_fault f \<Longrightarrow> updateAnnouncements sanitizeHtml self n f = fetch_error self n"
  by (cases f) (auto simp: connectivity_fault_def updateAnnouncements_def)

lemma updateButton_fields [simp]:
  "retryDelay (updateButtonForServiceState s) = retryDelay s"
  "maxRetryDelay (updateButtonForServiceState s) = maxRetryDelay s"
  "initialRetryDelay (updateButtonForServiceState s) = initialRetryDelay s"
  "serviceState (updateButtonForServiceState s) = serviceState s"
  "last_rendered (updateButtonForServiceState s) = last_rendered s"
  "newAnnouncement (updateButtonForServiceState s) = newAnnouncement s"
  by (simp_all add: updateButtonForServiceState_def split: option.splits)

lemma updateTooltip_fields [simp]:
  "retryDelay (updateButtonTooltip s) = retryDelay s"
  "maxRetryDelay (updateButtonTooltip s) = maxRetryDelay s"
  "initialRetryDelay (updateButtonTooltip s) = initialRetryDelay s"
  "serviceState (updateButtonTooltip s) = serviceState s"
  "last_rendered (updateButtonTooltip s) = last_rendered s"
  "newAnnouncement (updateButtonTooltip s) = newAnnouncement s"
  by (simp_all add: updateButtonTooltip_def split: option.splits)

lemma createButton_fields [simp]:
  "retryDelay (createAnnouncementsButton s b) = retryDelay s"
  "maxRetryDelay (createAnnouncementsButton s b) = maxRetryDelay s"
  "initialRetryDelay (createAnnouncementsButton s b) = initialRetryDelay s"
  "serviceState (createAnnouncementsButton s b) = serviceState s"
  "last_rendered (createAnnouncementsButton s b) = last_rendered s"
  "newAnnouncement (createAnnouncementsButton s b) = newAnnouncement s"
  by (simp_all add: createAnnouncementsButton_def Let_def)

lemma showRecovery_fields [simp]:
  "retryDelay (fst (showRecoveryNotification s)) = retryDelay s"
  "maxRetryDelay (fst (showRecoveryNotification s)) = maxRetryDelay s"
  "initialRetryDelay (fst (showRecoveryNotification s)) = initialRetryDelay s"
  "serviceState (fst (showRecoveryNotification s)) = serviceState s"
  "last_rendered (fst (showRecoveryNotification s)) = last_rendered s"
  "newAnnouncement (fst (showRecoveryNotification s)) = newAnnouncement s"
  by (simp_all add: showRecoveryNotification_def split: option.splits)

lemma openAnnouncements_fields [simp]:
  "last_rendered (openAnnouncements s) = last_rendered s"
  "newAnnouncement (openAnnouncements s) = False"
  by (simp_all add: openAnnouncements_def)

text \<open>
  C4. When the payload of a cycle fails validation, the cycle leaves the state of the
  poller as it was, every field of it, and sets the timer of the next poll to the
  interval \<open>n\<close>.
\<close>

theorem validation_fault_keeps_state:
  assumes "jsonToAnnouncementsData sanitizeHtml jsonData = Inl (ValidationError reason)"
  shows "after (updateAnnouncements sanitizeHtml self n (Response True status (Some jsonData)))
           = self
    \<and> next_poll (updateAnnouncements sanitizeHtml self n (Response True status (Some jsonData)))
           = n"
  using assms by (simp add: updateAnnouncements_def)

theorem validation_fault_keeps_state_witness:
  "after (updateAnnouncements (\<lambda>x. x) RefreshAnnouncements_new 300000
            (Response True 200 (Some (JObj [(js ''popup'', JBool True)]))))
     = RefreshAnnouncements_new
   \<and> next_poll (updateAnnouncements (\<lambda>x. x) RefreshAnnouncements_new 300000
            (Response True 200 (Some (JObj [(js ''popup'', JBool True)]))))
     = 300000"
  using validation_fault_keeps_state [of "\<lambda>x. x" "JObj [(js ''popup'', JBool True)]"
      "''Bad blocks array.''" RefreshAnnouncements_new 300000 200]
  by (simp add: jsonToAnnouncementsData_def js_def ch_def)

lemma fetch_error_below_ceiling:
  assumes "retryDelay s < maxRetryDelay s"
  shows "next_poll (fetch_error s n) = retryDelay s"
    and "serviceState (after (fetch_error s n)) = degraded"
    and "retryDelay (after (fetch_error s n)) = min (retryDelay s * 2) (maxRetryDelay s)"
    and "maxRetryDelay (after (fetch_error s n)) = maxRetryDelay s"
    and "initialRetryDelay (after (fetch_error s n)) = initialRetryDelay s"
  using assms by (simp_all add: fetch_error_def Let_def)

lemma fetch_error_at_ceiling:
  assumes "retryDelay s \<ge> maxRetryDelay s"
  shows "next_poll (fetch_error s n) = n"
    and "serviceState (after (fetch_error s n)) = failed"
    and "retryDelay (after (fetch_error s n)) = initialRetryDelay s"
    and "maxRetryDelay (after (fetch_error s n)) = maxRetryDelay s"
    and "initialRetryDelay (after (fetch_error s n)) = initialRetryDelay s"
  using assms by (simp_all add: fetch_error_def Let_def)

lemma below_six: "j < 6 \<Longrightarrow> j = 0 \<or> j = 1 \<or> j = 2 \<or> j = 3 \<or> j = 4 \<or> j = (5::nat)"
  by arith

lemma pow2_small: "j < 6 \<Longrightarrow> (10000::int) * 2 ^ j < 600000"
  using below_six [of j] by auto

lemma phase_step:
  assumes "at_phase j s"
  shows "next_poll (fetch_error s n) = backoff_delay n j"
    and "serviceState (after (fetch_error s n)) = (if j = 6 then failed else degraded)"
    and "retryDelay (after (fetch_error s n))
           = (if j = 6 then 10000 else min (10000 * 2 ^ Suc j) 600000)"
    and "at_phase (Suc j mod 7) (after (fetch_error s n))"
proof -
  show "next_poll (fetch_error s n) = backoff_delay n j"
  proof (cases "j = 6")
    case True
    with assms show ?thesis
      by (simp add: at_phase_def fetch_error_at_ceiling backoff_delay_def)
  next
    case False
    with assms have "j < 6" by (simp add: at_phase_def)
    with assms False show ?thesis
      using pow2_small [of j]
      by (simp add: at_phase_def fetch_error_below_ceiling backoff_delay_def)
  qed
  show "serviceState (after (fetch_error s n)) = (if j = 6 then failed else degraded)"
  proof (cases "j = 6")
    case True
    with assms show ?thesis by (simp add: at_phase_def fetch_error_at_ceiling)
  next
    case False
    with assms have "j < 6" by (simp add: at_phase_def)
    with assms False show ?thesis
      using pow2_small [of j] by (simp add: at_phase_def fetch_error_below_ceiling)
  qed
  show "retryDelay (after (fetch_error s n))
          = (if j = 6 then 10000 else min (10000 * 2 ^ Suc j) 600000)"
  proof (cases "j = 6")
    case True
    with assms show ?thesis by (simp add: at_phase_def fetch_error_at_ceiling)
  next
    case False
    with assms have "j < 6" by (simp add: at_phase_def)
    with assms False show ?thesis
      using pow2_small [of j] by (simp add: at_phase_def fetch_error_below_ceiling)
  qed
  show "at_phase (Suc j mod 7) (after (fetch_error s n))"
  proof (cases "j = 6")
    case True
    with assms show ?thesis by (simp add: at_phase_def fetch_error_at_ceiling)
  next
    case False
    with assms have "j < 6" by (simp add: at_phase_def)
    with assms show ?thesis
      using below_six [of j] by (auto simp: at_phase_def fetch_error_below_ceiling)
  qed
qed

lemma run_faults:
  assumes "at_phase j s" and "\<forall>f \<in> set fs. connectivity_fault f"
  shows "map next_poll (run_cycles sanitizeHtml n s fs)
           = map (\<lambda>k. backoff_delay n (j + k)) [0..<length fs]
    \<and> map (\<lambda>c. serviceState (after c)) (run_cycles sanitizeHtml n s fs)
           = map (\<lambda>k. if (j + k) mod 7 = 6 then failed else degraded) [0..<length fs]
    \<and> map (\<lambda>c. retryDelay (after c)) (run_cycles sanitizeHtml n s fs)
           = map (\<lambda>k. if (j + k) mod 7 = 6 then 10000
                       else min (10000 * 2 ^ Suc ((j + k) mod 7)) 600000) [0..<length fs]"
  using assms
proof (induction fs arbitrary: j s)
  case Nil
  show ?case by simp
next
  case (Cons f fs)
  let ?c = "fetch_error s n"
  have upd: "updateAnnouncements sanitizeHtml s n f = ?c"
    using Cons.prems(2) by (simp add: fault_is_fetch_error)
  have j7: "j < 7" using Cons.prems(1) by (simp add: at_phase_def)
  have next_phase: "at_phase (Suc j mod 7) (after ?c)"
    using Cons.prems(1) by (rule phase_step)
  have shift: "(Suc j mod 7 + k) mod 7 = (j + Suc k) mod 7" for k
    by (simp add: mod_add_left_eq mod_Suc_eq)
  have bd: "backoff_delay n (Suc j mod 7 + k) = backoff_delay n (j + Suc k)" for k
    unfolding backoff_delay_def shift ..
  have IH: "map next_poll (run_cycles sanitizeHtml n (after ?c) fs)
           = map (\<lambda>k. backoff_delay n (j + Suc k)) [0..<length fs]
    \<and> map (\<lambda>c. serviceState (after c)) (run_cycles sanitizeHtml n (after ?c) fs)
           = map (\<lambda>k. if (j + Suc k) mod 7 = 6 then failed else degraded) [0..<length fs]
    \<and> map (\<lambda>c. retryDelay (after c)) (run_cycles sanitizeHtml n (after ?c) fs)
           = map (\<lambda>k. if (j + Suc k) mod 7 = 6 then 10000
                       else min (10000 * 2 ^ Suc ((j + Suc k) mod 7)) 600000) [0..<length fs]"
    using Cons.IH [OF next_phase] Cons.prems(2) unfolding bd shift by simp
  have upt: "[0..<length (f # fs)] = 0 # map Suc [0..<length fs]"
    by (simp add: upt_conv_Cons map_Suc_upt del: upt_Suc)
  have j6: "(j mod 7 = 6) = (j = 6)" and jm: "j mod 7 = j" using j7 by simp_all
  show ?case
    unfolding upt
    using IH phase_step(1,2,3) [OF Cons.prems(1), of n]
    by (simp add: upd Let_def comp_def j6 jm)
qed

text \<open>A fault at the ceiling, from any state.\<close>

lemma ceiling_fault:
  assumes "connectivity_fault f" and "retryDelay self \<ge> maxRetryDelay self"
  shows "serviceState (after (updateAnnouncements sanitizeHtml self n f)) = failed
    \<and> retryDelay (after (updateAnnouncements sanitizeHtml self n f)) = initialRetryDelay self
    \<and> next_poll (updateAnnouncements sanitizeHtml self n f) = n"
  using assms by (simp add: fault_is_fetch_error fetch_error_at_ceiling)

text \<open>
  C3. From a state with the delay at 10000 and the ceiling at 600000, as the constructor
  gives it, a run of connectivity faults sets the timer of the next poll to 10000, 20000,
  40000, 80000, 160000 and 320000, each time leaving the service degraded and the delay
  doubled, capped at 600000. The delay is then at the ceiling, and the seventh fault sets
  the service to failed, the delay back to 10000 and the timer to the interval \<open>n\<close> of
  the poll, not to a backoff delay. Further faults repeat the seven steps.
\<close>

theorem backoff_sequence:
  assumes "retryDelay self = 10000" and "maxRetryDelay self = 600000"
    and "initialRetryDelay self = 10000"
    and "\<forall>f \<in> set fs. connectivity_fault f"
  shows "map next_poll (run_cycles sanitizeHtml n self fs)
           = map (backoff_delay n) [0..<length fs]
    \<and> map (\<lambda>c. serviceState (after c)) (run_cycles sanitizeHtml n self fs)
           = map (\<lambda>k. if k mod 7 = 6 then failed else degraded) [0..<length fs]
    \<and> map (\<lambda>c. retryDelay (after c)) (run_cycles sanitizeHtml n self fs)
           = map (\<lambda>k. if k mod 7 = 6 then 10000
                       else min (10000 * 2 ^ Suc (k mod 7)) 600000) [0..<length fs]"
proof -
  have "at_phase 0 self"
    using assms(1-3) by (simp add: at_phase_def)
  from run_faults [OF this assms(4), of sanitizeHtml n] show ?thesis by simp
qed

theorem backoff_sequence_witness:
  "map next_poll (run_cycles (\<lambda>x. x) 300000 RefreshAnnouncements_new
      [Rejected, Response False 503 None, Rejected, Response False 401 None,
       Rejected, Rejected, Response False 500 None, Rejected])
     = [10000, 20000, 40000, 80000, 160000, 320000, 300000, 10000]
   \<and> map (\<lambda>c. serviceState (after c)) (run_cycles (\<lambda>x. x) 300000 RefreshAnnouncements_new
      [Rejected, Response False 503 None, Rejected, Response False 401 None,
       Rejected, Rejected, Response False 500 None, Rejected])
     = [degraded, degraded, degraded, degraded, degraded, degraded, failed, degraded]
   \<and> map (\<lambda>c. retryDelay (after c)) (run_cycles (\<lambda>x. x) 300000 RefreshAnnouncements_new
      [Rejected, Response False 503 None, Rejected, Response False 401 None,
       Rejected, Rejected, Response False 500 None, Rejected])
     = [20000, 40000, 80000, 160000, 320000, 600000, 10000, 20000]"
proof -
  let ?fs = "[Rejected, Response False 503 None, Rejected, Response False 401 None,
       Rejected, Rejected, Response False 500 None, Rejected]"
  have faults: "\<forall>f \<in> set ?fs. connectivity_fault f"
    by (simp add: connectivity_fault_def shouldRetry_def isPermissionError_def)
  have idx: "[0..<length ?fs] = [0, 1, 2, 3, 4, 5, 6, 7]"
    by (simp add: upt_rec)
  have start: "retryDelay RefreshAnnouncements_new = 10000"
    "maxRetryDelay RefreshAnnouncements_new = 600000"
    "initialRetryDelay RefreshAnnouncements_new = 10000"
    by (simp_all add: RefreshAnnouncements_new_def)
  show ?thesis
    using backoff_sequence [OF start faults, of "\<lambda>x. x" 300000]
    unfolding idx by (simp add: backoff_delay_def del: run_cycles.simps)
qed

lemma success_last_rendered:
  "last_rendered (after (success s n a)) = AnnouncementsData_toHtml a"
  by (simp add: success_def Let_def case_prod_beta split: option.splits)

lemma success_same_rendering:
  assumes "last_rendered s = AnnouncementsData_toHtml a" and "\<not> newAnnouncement s"
  shows "\<not> newAnnouncement (after (success s n a)) \<and> \<not> modal_opened (success s n a)"
  using assms by (simp add: success_def Let_def case_prod_beta split: option.splits)

lemma sample_cycle_seen:
  "\<not> newAnnouncement (after (success RefreshAnnouncements_new n sample_data))"
  using sample_rendering_nonempty
  by (simp add: success_def Let_def case_prod_beta RefreshAnnouncements_new_def
        sample_data_def)

text \<open>
  C9. When two cycles in a row succeed with payloads that render to the same string, and
  the announcement is not marked as new after the first cycle, it is not marked as new
  after the second, and the second cycle does not open the dialog.
\<close>

theorem same_payload_stays_seen:
  assumes "jsonToAnnouncementsData sanitizeHtml j1 = Inr a1"
    and "jsonToAnnouncementsData sanitizeHtml j2 = Inr a2"
    and "AnnouncementsData_toHtml a1 = AnnouncementsData_toHtml a2"
    and "c1 = updateAnnouncements sanitizeHtml self n (Response True status1 (Some j1))"
    and "c2 = updateAnnouncements sanitizeHtml (after c1) n (Response True status2 (Some j2))"
    and "\<not> newAnnouncement (after c1)"
  shows "\<not> newAnnouncement (after c2) \<and> \<not> modal_opened c2"
proof -
  have c1: "c1 = success self n a1" and c2: "c2 = success (after c1) n a2"
    using assms(1,2,4,5) by (simp_all add: updateAnnouncements_def)
  have "last_rendered (after c1) = AnnouncementsData_toHtml a2"
    using assms(3) by (simp add: c1 success_last_rendered)
  then show ?thesis
    unfolding c2 using assms(6) by (rule success_same_rendering)
qed

theorem same_payload_stays_seen_witness:
  "\<not> newAnnouncement (after (updateAnnouncements (\<lambda>x. x)
        (after (updateAnnouncements (\<lambda>x. x) RefreshAnnouncements_new 300000
           (Response True 200 (Some sample_payload))))
        300000 (Response True 200 (Some sample_payload))))
   \<and> \<not> modal_opened (updateAnnouncements (\<lambda>x. x)
        (after (updateAnnouncements (\<lambda>x. x) RefreshAnnouncements_new 300000
           (Response True 200 (Some sample_payload))))
        300000 (Response True 200 (Some sample_payload)))"
proof -
  have first: "updateAnnouncements (\<lambda>x. x) RefreshAnnouncements_new 300000
      (Response True 200 (Some sample_payload)) = success RefreshAnnouncements_new 300000 sample_data"
    by (simp add: updateAnnouncements_def sample_payload_parses)
  have seen: "\<not> newAnnouncement (after (updateAnnouncements (\<lambda>x. x) RefreshAnnouncements_new
      300000 (Response True 200 (Some sample_payload))))"
    unfolding first by (rule sample_cycle_seen)
  show ?thesis
    by (rule same_payload_stays_seen [OF sample_payload_parses sample_payload_parses refl
          refl refl seen])
qed

end
